theory Spec2Isabelle
  imports Main "HOL-Library.Word"
begin

unbundle bit_operations_syntax

section \<open>Kernel interfaces consumed by the driver\<close>

text \<open>
  The driver in \<^verbatim>\<open>src/plmem.c\<close> is a Linux platform driver. Everything it calls
  besides its own functions belongs to the kernel: the character-device number
  allocator, the cdev map, the device class, the firmware description of the node and
  the virtual-memory helpers. The kernel is not part of the repository, so this section
  gives the state those interfaces act on and the part of their behaviour the driver
  depends on, following the kernel's \<^verbatim>\<open>fs/char_dev.c\<close>, \<^verbatim>\<open>drivers/base/core.c\<close>
  and \<^verbatim>\<open>drivers/base/platform.c\<close>. Outcomes a call has for reasons outside this state
  (memory exhaustion, a sysfs name collision) are inputs, collected in the record
  \<open>env\<close>. Integers are those of an LP64 build: \<^verbatim>\<open>dev_t\<close> and \<^verbatim>\<open>unsigned\<close> are 32-bit
  words, \<^verbatim>\<open>resource_size_t\<close> and \<^verbatim>\<open>unsigned long\<close> 64-bit words; an \<^verbatim>\<open>int\<close> that only
  carries an errno is an \<open>int\<close>.
\<close>

subsection \<open>Error numbers\<close>

definition ENOMEM :: int where "ENOMEM = 12"
definition EBUSY :: int where "EBUSY = 16"
definition EEXIST :: int where "EEXIST = 17"
definition EINVAL :: int where "EINVAL = 22"
definition ENOTTY :: int where "ENOTTY = 25"

text \<open>
  What a C function does besides returning: dereferencing a null or dangling pointer,
  or never leaving a loop.
\<close>

datatype fault = NullDeref | Hang

subsection \<open>Device numbers\<close>

type_synonym dev_t = "32 word"
type_synonym addr = nat

definition MINORBITS :: nat where "MINORBITS = 20"
definition MINORMASK :: "32 word" where "MINORMASK = 0xFFFFF"

definition MAJOR :: "dev_t \<Rightarrow> 32 word" where
  "MAJOR dev = drop_bit MINORBITS dev"

definition MINOR :: "dev_t \<Rightarrow> 32 word" where
  "MINOR dev = dev AND MINORMASK"

definition MKDEV :: "32 word \<Rightarrow> 32 word \<Rightarrow> dev_t" where
  "MKDEV ma mi = push_bit MINORBITS ma OR mi"

subsection \<open>The character-device number allocator\<close>

text \<open>
  \<^verbatim>\<open>struct char_device_struct\<close>: one registered range of device numbers. The kernel
  keeps the ranges in hash chains indexed by \<^verbatim>\<open>major % 255\<close>; here they are one list,
  the newest range first.
\<close>

record char_device_struct =
  cd_major :: "32 word"
  cd_baseminor :: "32 word"
  cd_minorct :: "32 word"
  cd_name :: string

type_synonym chrdev_table = "char_device_struct list"

definition CHRDEV_MAJOR_HASH_SIZE :: nat where "CHRDEV_MAJOR_HASH_SIZE = 255"
definition CHRDEV_MAJOR_MAX :: nat where "CHRDEV_MAJOR_MAX = 512"
definition CHRDEV_MAJOR_DYN_END :: nat where "CHRDEV_MAJOR_DYN_END = 234"
definition CHRDEV_MAJOR_DYN_EXT_START :: nat where "CHRDEV_MAJOR_DYN_EXT_START = 511"
definition CHRDEV_MAJOR_DYN_EXT_END :: nat where "CHRDEV_MAJOR_DYN_EXT_END = 384"

definition major_to_index :: "32 word \<Rightarrow> 32 word" where
  "major_to_index major = major mod of_nat CHRDEV_MAJOR_HASH_SIZE"

text \<open>
  \<^verbatim>\<open>find_dynamic_major\<close>: the highest index from 254 down to 234 whose hash chain is
  empty, else the highest major from 511 down to 384 that no range uses, else
  \<^verbatim>\<open>-EBUSY\<close>.
\<close>

definition find_dynamic_major :: "chrdev_table \<Rightarrow> int" where
  "find_dynamic_major t =
     (case List.find (\<lambda>i. filter (\<lambda>cd. major_to_index (cd_major cd) = of_nat i) t = [])
             (rev [CHRDEV_MAJOR_DYN_END ..< CHRDEV_MAJOR_HASH_SIZE]) of
        Some i \<Rightarrow> int i
      | None \<Rightarrow>
         (case List.find (\<lambda>i. filter (\<lambda>cd. cd_major cd = of_nat i) t = [])
                 (rev [CHRDEV_MAJOR_DYN_EXT_END ..< Suc CHRDEV_MAJOR_DYN_EXT_START]) of
            Some i \<Rightarrow> int i
          | None \<Rightarrow> - EBUSY))"

text \<open>
  \<^verbatim>\<open>__register_chrdev_region\<close>: major 0 asks for a dynamic major; a range that
  overlaps a registered one of the same major is refused with \<^verbatim>\<open>-EBUSY\<close>.
\<close>

definition overlaps :: "32 word \<Rightarrow> 32 word \<Rightarrow> 32 word \<Rightarrow> char_device_struct \<Rightarrow> bool" where
  "overlaps major baseminor minorct cur =
     (cd_major cur = major
      \<and> \<not> cd_baseminor cur + cd_minorct cur \<le> baseminor
      \<and> \<not> cd_baseminor cur \<ge> baseminor + minorct)"

definition register_chrdev_region' ::
  "chrdev_table \<Rightarrow> 32 word \<Rightarrow> 32 word \<Rightarrow> 32 word \<Rightarrow> string
     \<Rightarrow> int + (char_device_struct \<times> chrdev_table)" where
  "register_chrdev_region' t major baseminor minorct name =
     (if major \<ge> of_nat CHRDEV_MAJOR_MAX then Inl (- EINVAL)
      else if minorct > MINORMASK + 1 - baseminor then Inl (- EINVAL)
      else
        let ret = (if major = 0 then find_dynamic_major t else 0) in
        if major = 0 \<and> ret < 0 then Inl ret
        else
          let major = (if major = 0 then word_of_int ret else major) in
          if filter (overlaps major baseminor minorct) t \<noteq> [] then Inl (- EBUSY)
          else
            let cd = \<lparr>cd_major = major, cd_baseminor = baseminor,
                      cd_minorct = minorct, cd_name = name\<rparr>
            in Inr (cd, cd # t))"

text \<open>
  \<^verbatim>\<open>alloc_chrdev_region(&dev, baseminor, count, name)\<close>: on success the first number
  of the new range is stored in \<^verbatim>\<open>dev\<close> and 0 is returned; on failure \<^verbatim>\<open>dev\<close> is not
  written and the negative errno is returned (\<open>Inl\<close>).
\<close>

definition alloc_chrdev_region ::
  "chrdev_table \<Rightarrow> 32 word \<Rightarrow> 32 word \<Rightarrow> string \<Rightarrow> int + (dev_t \<times> chrdev_table)" where
  "alloc_chrdev_region t baseminor count name =
     (case register_chrdev_region' t 0 baseminor count name of
        Inl e \<Rightarrow> Inl e
      | Inr (cd, t') \<Rightarrow> Inr (MKDEV (cd_major cd) (cd_baseminor cd), t'))"

text \<open>
  \<^verbatim>\<open>__unregister_chrdev_region\<close>: unlinks the first range whose major, first minor
  and length all equal the arguments; a range that differs in any of them stays.
\<close>

fun unregister_chrdev_region' ::
  "chrdev_table \<Rightarrow> 32 word \<Rightarrow> 32 word \<Rightarrow> 32 word \<Rightarrow> chrdev_table" where
  "unregister_chrdev_region' [] major baseminor minorct = []"
| "unregister_chrdev_region' (cd # t) major baseminor minorct =
     (if cd_major cd = major \<and> cd_baseminor cd = baseminor \<and> cd_minorct cd = minorct
      then t
      else cd # unregister_chrdev_region' t major baseminor minorct)"

text \<open>
  \<^verbatim>\<open>unregister_chrdev_region(from, count)\<close>:
  \<^verbatim>\<open>
  dev_t to = from + count;
  for (n = from; n < to; n = next) {
          next = MKDEV(MAJOR(n)+1, 0);
          if (next > to)
                  next = to;
          kfree(__unregister_chrdev_region(MAJOR(n), MINOR(n), next - n));
  }
  \<close>
  The loop walks the majors from \<^verbatim>\<open>from\<close> to \<^verbatim>\<open>to\<close>. In 32 bits \<^verbatim>\<open>MKDEV(4096, 0)\<close> is 0,
  so the loop is not known to end for every argument: not returning is \<open>None\<close>.
\<close>

partial_function (option) unregister_loop ::
  "dev_t \<Rightarrow> dev_t \<Rightarrow> chrdev_table \<Rightarrow> chrdev_table option" where
  "unregister_loop n to t =
     (if n < to then
        let next = MKDEV (MAJOR n + 1) 0;
            next = (if next > to then to else next)
        in unregister_loop next to
             (unregister_chrdev_region' t (MAJOR n) (MINOR n) (next - n))
      else Some t)"

declare unregister_loop.simps [code]

definition unregister_chrdev_region ::
  "chrdev_table \<Rightarrow> dev_t \<Rightarrow> 32 word \<Rightarrow> chrdev_table option" where
  "unregister_chrdev_region t from count = unregister_loop from (from + count) t"

subsection \<open>Driver data, the cdev map and the device class\<close>

text \<open>
  \<^verbatim>\<open>enum plmem_mode { noncached, writecombine, cached }\<close>; zeroed memory reads as
  \<open>noncached\<close>, the enumerator with value 0.
\<close>

datatype plmem_mode = noncached | writecombine | cached

datatype fops_ref = Plmem_fops
datatype module_ref = THIS_MODULE

text \<open>The fields of \<^verbatim>\<open>struct cdev\<close> that \<^verbatim>\<open>cdev_init\<close>, \<^verbatim>\<open>cdev_add\<close> and the driver write.\<close>

record cdev =
  cdev_ops :: "fops_ref option"
  cdev_owner :: "module_ref option"
  cdev_dev :: dev_t
  cdev_count :: "32 word"

definition zero_cdev :: cdev where
  "zero_cdev = \<lparr>cdev_ops = None, cdev_owner = None, cdev_dev = 0, cdev_count = 0\<rparr>"

text \<open>\<^verbatim>\<open>struct plmem_data\<close>, field by field; \<open>dev\<close> points to the platform device.\<close>

record plmem_data =
  dev :: "addr option"
  mem_start :: "64 word"
  mem_size :: "64 word"
  devt :: dev_t
  cdev_command :: cdev
  mmap_mode :: plmem_mode

definition zero_plmem_data :: plmem_data where
  "zero_plmem_data =
     \<lparr>dev = None, mem_start = 0, mem_size = 0, devt = 0,
      cdev_command = zero_cdev, mmap_mode = noncached\<rparr>"

text \<open>A pointer to the \<^verbatim>\<open>cdev_command\<close> member of the \<^verbatim>\<open>plmem_data\<close> at an address.\<close>

datatype cdev_ptr = Cdev_command_of addr

fun container_of :: "cdev_ptr \<Rightarrow> addr" where
  "container_of (Cdev_command_of a) = a"

text \<open>An entry of the kernel's \<^verbatim>\<open>cdev_map\<close>: the numbers a cdev answers for.\<close>

record probe =
  p_dev :: dev_t
  p_range :: "32 word"
  p_data :: cdev_ptr

text \<open>A device created in the driver's class \<^verbatim>\<open>plmem_class\<close>.\<close>

record class_device =
  d_parent :: "addr option"
  d_devt :: dev_t
  d_drvdata :: addr
  d_name :: string

text \<open>
  The kernel state the driver acts on: the \<^verbatim>\<open>plmem_data\<close> objects it allocated,
  the registered device-number ranges, the cdev map, the devices of \<^verbatim>\<open>plmem_class\<close>
  and the messages it logged.
\<close>

record kernel =
  mem :: "addr \<Rightarrow> plmem_data option"
  chrdevs :: chrdev_table
  cdev_map :: "probe list"
  plmem_class :: "class_device list"
  dmesg :: "string list"

text \<open>
  Outcomes decided outside that state: the address \<^verbatim>\<open>devm_kzalloc\<close> returns (or
  \<^verbatim>\<open>NULL\<close>), the value \<^verbatim>\<open>cdev_add\<close> returns, the errno \<^verbatim>\<open>device_create\<close> wraps in
  \<^verbatim>\<open>ERR_PTR\<close> when it fails, and what \<^verbatim>\<open>vsnprintf\<close> prints from a conversion on
  when no argument was passed for it (given the format from the character after
  the \<^verbatim>\<open>%\<close>).
\<close>

record env =
  kzalloc_ret :: "addr option"
  cdev_add_ret :: int
  device_create_err :: "int option"
  directive_output :: "string \<Rightarrow> string"

definition store :: "kernel \<Rightarrow> addr \<Rightarrow> (plmem_data \<Rightarrow> plmem_data) \<Rightarrow> kernel" where
  "store k a f = k\<lparr>mem := (mem k)(a := map_option f (mem k a))\<rparr>"

definition devm_kzalloc :: "env \<Rightarrow> kernel \<Rightarrow> addr option \<times> kernel" where
  "devm_kzalloc e k =
     (case kzalloc_ret e of
        None \<Rightarrow> (None, k)
      | Some a \<Rightarrow> (Some a, k\<lparr>mem := (mem k)(a \<mapsto> zero_plmem_data)\<rparr>))"

definition nl :: string where
  "nl = [CHR 0x0A]"

text \<open>\<^verbatim>\<open>dev_err\<close>: the message, its format expanded, is appended to the log.\<close>

definition dev_err :: "kernel \<Rightarrow> string \<Rightarrow> kernel" where
  "dev_err k msg = k\<lparr>dmesg := dmesg k @ [msg]\<rparr>"

text \<open>\<^verbatim>\<open>dev_err_probe\<close>: logs the message and returns the error it was given.\<close>

definition dev_err_probe :: "kernel \<Rightarrow> int \<Rightarrow> string \<Rightarrow> int \<times> kernel" where
  "dev_err_probe k err msg = (err, dev_err k msg)"

text \<open>\<^verbatim>\<open>cdev_init\<close>: clears the cdev and sets its operations table.\<close>

definition cdev_init :: "fops_ref \<Rightarrow> cdev" where
  "cdev_init fops = zero_cdev\<lparr>cdev_ops := Some fops\<rparr>"

text \<open>
  \<^verbatim>\<open>cdev_add(p, dev, count)\<close>: records the numbers in the cdev, then enters it in the
  cdev map; from then on opening a node with one of these numbers calls the cdev's
  operations. A nonzero result means the map was not changed.
\<close>

definition cdev_add :: "env \<Rightarrow> kernel \<Rightarrow> cdev_ptr \<Rightarrow> dev_t \<Rightarrow> 32 word \<Rightarrow> int \<times> kernel" where
  "cdev_add e k p dev' count =
     (let k = store k (container_of p)
                (\<lambda>d. d\<lparr>cdev_command := (cdev_command d)\<lparr>cdev_dev := dev', cdev_count := count\<rparr>\<rparr>)
      in if cdev_add_ret e = 0
         then (0, k\<lparr>cdev_map := \<lparr>p_dev = dev', p_range = count, p_data = p\<rparr> # cdev_map k\<rparr>)
         else (cdev_add_ret e, k))"

text \<open>
  \<^verbatim>\<open>vsnprintf\<close> on a format with an empty argument list, which is how the driver
  calls \<^verbatim>\<open>device_create\<close>: a character other than \<^verbatim>\<open>%\<close> is copied, \<^verbatim>\<open>%%\<close> prints one
  \<^verbatim>\<open>%\<close>, and from any other directive on the output does not depend on the driver
  (most directives read an argument, and none was passed): it is the input \<open>u\<close>.
\<close>

fun vsnprintf_noargs :: "(string \<Rightarrow> string) \<Rightarrow> string \<Rightarrow> string" where
  "vsnprintf_noargs u [] = []"
| "vsnprintf_noargs u [c] = (if c = CHR ''%'' then u [] else [c])"
| "vsnprintf_noargs u (c # d # fmt) =
     (if c \<noteq> CHR ''%'' then c # vsnprintf_noargs u (d # fmt)
      else if d = CHR ''%'' then CHR ''%'' # vsnprintf_noargs u fmt
      else u (d # fmt))"

definition strreplace :: "string \<Rightarrow> char \<Rightarrow> char \<Rightarrow> string" where
  "strreplace s old new = map (\<lambda>c. if c = old then new else c) s"

text \<open>
  \<^verbatim>\<open>kobject_set_name_vargs\<close>: the name of a device is its format printed, with every
  \<^verbatim>\<open>/\<close> replaced by \<^verbatim>\<open>!\<close>.
\<close>

definition kobject_set_name_vargs :: "env \<Rightarrow> string \<Rightarrow> string" where
  "kobject_set_name_vargs e fmt =
     strreplace (vsnprintf_noargs (directive_output e) fmt) (CHR ''/'') (CHR ''!'')"

text \<open>
  \<^verbatim>\<open>device_create(class, parent, devt, drvdata, fmt, ...)\<close>: on success the class has
  a new device with that number, whose name is printed from the format \<^verbatim>\<open>fmt\<close> (the
  driver passes no further arguments); on failure nothing is added and
  \<^verbatim>\<open>ERR_PTR(err)\<close> is returned (\<open>Inl\<close>).
\<close>

definition device_create ::
  "env \<Rightarrow> kernel \<Rightarrow> addr option \<Rightarrow> dev_t \<Rightarrow> addr \<Rightarrow> string \<Rightarrow> int + kernel" where
  "device_create e k parent devt' drvdata fmt =
     (case device_create_err e of
        Some err \<Rightarrow> Inl err
      | None \<Rightarrow>
          Inr (k\<lparr>plmem_class :=
                   \<lparr>d_parent = parent, d_devt = devt', d_drvdata = drvdata,
                     d_name = kobject_set_name_vargs e fmt\<rparr>
                   # plmem_class k\<rparr>))"

text \<open>\<^verbatim>\<open>device_destroy(class, devt)\<close>: removes the class's device with that number, if any.\<close>

fun remove_devt :: "class_device list \<Rightarrow> dev_t \<Rightarrow> class_device list" where
  "remove_devt [] devt' = []"
| "remove_devt (d # ds) devt' = (if d_devt d = devt' then ds else d # remove_devt ds devt')"

definition device_destroy :: "kernel \<Rightarrow> dev_t \<Rightarrow> kernel" where
  "device_destroy k devt' = k\<lparr>plmem_class := remove_devt (plmem_class k) devt'\<rparr>"

subsection \<open>The platform device and its firmware description\<close>

record resource =
  res_start :: "64 word"
  res_end :: "64 word"
  res_flags :: "64 word"

definition IORESOURCE_TYPE_BITS :: "64 word" where "IORESOURCE_TYPE_BITS = 0x00001f00"
definition IORESOURCE_MEM :: "64 word" where "IORESOURCE_MEM = 0x00000200"

definition resource_type :: "resource \<Rightarrow> 64 word" where
  "resource_type r = res_flags r AND IORESOURCE_TYPE_BITS"

text \<open>
  \<^verbatim>\<open>struct platform_device\<close>: the address of its \<^verbatim>\<open>dev\<close>, its resources, the
  node's \<^verbatim>\<open>compatible\<close> strings and string properties, and the driver-data pointer.
\<close>

record platform_device =
  pdev_dev :: addr
  resources :: "resource list"
  compatible :: "string list"
  properties :: "(string \<times> string) list"
  driver_data :: "addr option"

text \<open>\<^verbatim>\<open>platform_get_resource\<close>: the \<open>num\<close>-th resource of the type, or \<^verbatim>\<open>NULL\<close>.\<close>

definition platform_get_resource :: "platform_device \<Rightarrow> 64 word \<Rightarrow> nat \<Rightarrow> resource option" where
  "platform_get_resource pdev type num =
     (case drop num (filter (\<lambda>r. resource_type r = type) (resources pdev)) of
        [] \<Rightarrow> None
      | r # _ \<Rightarrow> Some r)"

definition platform_set_drvdata :: "platform_device \<Rightarrow> addr \<Rightarrow> platform_device" where
  "platform_set_drvdata pdev data = pdev\<lparr>driver_data := Some data\<rparr>"

definition dev_get_drvdata :: "platform_device \<Rightarrow> addr option" where
  "dev_get_drvdata pdev = driver_data pdev"

definition device_is_compatible :: "platform_device \<Rightarrow> string \<Rightarrow> bool" where
  "device_is_compatible pdev tag = (tag \<in> set (compatible pdev))"

text \<open>
  \<^verbatim>\<open>device_property_read_string(dev, propname, &val)\<close>: returns 0 and stores the
  string (\<open>Inr\<close>), or returns a negative errno and leaves \<^verbatim>\<open>val\<close> as it was (\<open>Inl\<close>).
\<close>

definition device_property_read_string :: "platform_device \<Rightarrow> string \<Rightarrow> int + string" where
  "device_property_read_string pdev propname =
     (case map_of (properties pdev) propname of
        None \<Rightarrow> Inl (- EINVAL)
      | Some s \<Rightarrow> Inr s)"

subsection \<open>Virtual memory\<close>

text \<open>
  \<^verbatim>\<open>struct vm_area_struct\<close> with the page protection of the architecture, \<open>'p\<close>.
  The protection macros and \<^verbatim>\<open>vm_iomap_memory\<close> belong to the architecture and the
  memory manager: they are parameters.
\<close>

record 'p vm_area_struct =
  vm_start :: "64 word"
  vm_end :: "64 word"
  vm_pgoff :: "64 word"
  vm_page_prot :: 'p

record 'p mm_ops =
  pgprot_noncached :: "'p \<Rightarrow> 'p"
  pgprot_writecombine :: "'p \<Rightarrow> 'p"
  vm_iomap_memory :: "'p vm_area_struct \<Rightarrow> 64 word \<Rightarrow> 64 word \<Rightarrow> int \<times> 'p vm_area_struct"

record struct_file =
  private_data :: "addr option"

record inode =
  i_rdev :: dev_t
  i_cdev :: cdev_ptr

section \<open>The driver\<close>

definition DRIVER_CLASS_NAME :: string where
  "DRIVER_CLASS_NAME = ''plmem''"

definition NUMBER_OF_CDEV :: nat where
  "NUMBER_OF_CDEV = 1"

subsection \<open>File operations\<close>

text \<open>
  \<^verbatim>\<open>plmem_mmap\<close> reads the instance through \<^verbatim>\<open>filp->private_data\<close>, sets the page
  protection of the area by the instance's mode and hands the area to
  \<^verbatim>\<open>vm_iomap_memory\<close>. The memory holding the instances is returned as it was
  received: the function writes to the area only.
\<close>

definition plmem_mmap ::
  "'p mm_ops \<Rightarrow> (addr \<Rightarrow> plmem_data option) \<Rightarrow> struct_file \<Rightarrow> 'p vm_area_struct
     \<Rightarrow> fault + (int \<times> 'p vm_area_struct \<times> (addr \<Rightarrow> plmem_data option))" where
  "plmem_mmap mm m filp vma =
     (case private_data filp of
        None \<Rightarrow> Inl NullDeref
      | Some a \<Rightarrow>
         (case m a of
            None \<Rightarrow> Inl NullDeref
          | Some data \<Rightarrow>
              let vma =
                (case mmap_mode data of
                   noncached \<Rightarrow> vma\<lparr>vm_page_prot := pgprot_noncached mm (vm_page_prot vma)\<rparr>
                 | writecombine \<Rightarrow> vma\<lparr>vm_page_prot := pgprot_writecombine mm (vm_page_prot vma)\<rparr>
                 | _ \<Rightarrow> vma);
                  (ret, vma) = vm_iomap_memory mm vma (mem_start data) (mem_size data)
              in Inr (ret, vma, m)))"

definition plmem_ioctl :: "struct_file \<Rightarrow> 32 word \<Rightarrow> 64 word \<Rightarrow> int" where
  "plmem_ioctl filp cmd arg = - ENOTTY"

definition plmem_open :: "inode \<Rightarrow> struct_file \<Rightarrow> int \<times> struct_file" where
  "plmem_open ino filp =
     (let data = container_of (i_cdev ino);
          filp = filp\<lparr>private_data := Some data\<rparr>
      in (0, filp))"

definition plmem_release :: "inode \<Rightarrow> struct_file \<Rightarrow> int" where
  "plmem_release ino filp = 0"

subsection \<open>Publishing the node\<close>

text \<open>
  The labels \<^verbatim>\<open>failed_device_create\<close> and \<^verbatim>\<open>failed_cdev\<close> of \<^verbatim>\<open>plmem_create_cdev\<close>:
  both name the same statement, which gives the number range back and returns.
\<close>

definition failed_cdev :: "kernel \<Rightarrow> dev_t \<Rightarrow> int \<Rightarrow> fault + (int \<times> kernel)" where
  "failed_cdev k devt' ret =
     (case unregister_chrdev_region (chrdevs k) devt' (of_nat NUMBER_OF_CDEV) of
        None \<Rightarrow> Inl Hang
      | Some t \<Rightarrow> Inr (ret, k\<lparr>chrdevs := t\<rparr>))"

definition plmem_create_cdev :: "env \<Rightarrow> kernel \<Rightarrow> addr \<Rightarrow> string \<Rightarrow> fault + (int \<times> kernel)" where
  "plmem_create_cdev e k data label =
     (case mem k data of
        None \<Rightarrow> Inl NullDeref
      | Some d \<Rightarrow>
          let device = dev d in
          (case alloc_chrdev_region (chrdevs k) 0 (of_nat NUMBER_OF_CDEV) DRIVER_CLASS_NAME of
             Inl ret \<Rightarrow> Inr (ret, k)
           | Inr (devt', t) \<Rightarrow>
               let k = k\<lparr>chrdevs := t\<rparr>;
                   k = store k data (\<lambda>d. d\<lparr>devt := devt'\<rparr>);
                   k = store k data (\<lambda>d. d\<lparr>cdev_command := cdev_init Plmem_fops\<rparr>);
                   k = store k data
                         (\<lambda>d. d\<lparr>cdev_command := (cdev_command d)\<lparr>cdev_owner := Some THIS_MODULE\<rparr>\<rparr>);
                   (ret, k) = cdev_add e k (Cdev_command_of data) devt' 1
               in if ret \<noteq> 0
                  then failed_cdev (dev_err k (''cdev_add() failed'' @ nl)) devt' ret
                  else
                    (case device_create e k device devt' data label of
                       Inl err \<Rightarrow>
                         failed_cdev (dev_err k (''unable to create device '' @ label @ nl))
                           devt' err
                     | Inr k \<Rightarrow> Inr (0, k))))"

subsection \<open>Probe and remove\<close>

text \<open>
  The \<^verbatim>\<open>topic,mem-type\<close> block of \<^verbatim>\<open>plmem_probe\<close>: \<open>Inl\<close> is the early return of
  \<^verbatim>\<open>dev_err_probe\<close>, \<open>Inr\<close> falls through to the label.
\<close>

definition probe_mem_type :: "kernel \<Rightarrow> platform_device \<Rightarrow> addr \<Rightarrow> (int \<times> kernel) + kernel" where
  "probe_mem_type k pdev data =
     (case device_property_read_string pdev ''topic,mem-type'' of
        Inl ret \<Rightarrow> Inr k
      | Inr mem_type \<Rightarrow>
          if mem_type = ''writecombine''
          then Inr (store k data (\<lambda>d. d\<lparr>mmap_mode := writecombine\<rparr>))
          else if mem_type = ''cached''
          then Inr (store k data (\<lambda>d. d\<lparr>mmap_mode := cached\<rparr>))
          else if mem_type = ''noncached''
          then Inr (store k data (\<lambda>d. d\<lparr>mmap_mode := noncached\<rparr>))
          else Inl (dev_err_probe k (- EINVAL) (''Invalid mem-type: '' @ mem_type @ nl)))"

definition plmem_probe ::
  "env \<Rightarrow> kernel \<Rightarrow> platform_device \<Rightarrow> fault + (int \<times> kernel \<times> platform_device)" where
  "plmem_probe e k pdev =
     (let label = ''plmem'' in
      case devm_kzalloc e k of
        (None, k) \<Rightarrow> Inr (- ENOMEM, k, pdev)
      | (Some data, k) \<Rightarrow>
          let pdev = platform_set_drvdata pdev data;
              k = store k data (\<lambda>d. d\<lparr>dev := Some (pdev_dev pdev)\<rparr>)
          in
          (case platform_get_resource pdev IORESOURCE_MEM 0 of
             None \<Rightarrow> Inl NullDeref
           | Some res \<Rightarrow>
               let k = store k data (\<lambda>d. d\<lparr>mem_start := res_start res\<rparr>);
                   k = store k data (\<lambda>d. d\<lparr>mem_size := res_end res - res_start res + 1\<rparr>);
                   k = (if device_is_compatible pdev ''topic,iotester''
                        then store k data (\<lambda>d. d\<lparr>mmap_mode := noncached\<rparr>)
                        else store k data (\<lambda>d. d\<lparr>mmap_mode := writecombine\<rparr>))
               in
               (case probe_mem_type k pdev data of
                  Inl (ret, k) \<Rightarrow> Inr (ret, k, pdev)
                | Inr k \<Rightarrow>
                    let (label, k) =
                      (case device_property_read_string pdev ''label'' of
                         Inr s \<Rightarrow> (s, k)
                       | Inl ret \<Rightarrow>
                           (label, dev_err k (''No label, using default: '' @ label @ nl)))
                    in
                    (case plmem_create_cdev e k data label of
                       Inl f \<Rightarrow> Inl f
                     | Inr (ret, k) \<Rightarrow> Inr (ret, k, pdev)))))"

definition plmem_remove :: "kernel \<Rightarrow> platform_device \<Rightarrow> fault + kernel" where
  "plmem_remove k pdev =
     (case dev_get_drvdata pdev of
        None \<Rightarrow> Inl NullDeref
      | Some data \<Rightarrow>
         (case mem k data of
            None \<Rightarrow> Inl NullDeref
          | Some d \<Rightarrow>
              let k = foldl (\<lambda>k i. device_destroy k (devt d + of_nat i)) k [0 ..< NUMBER_OF_CDEV]
              in
              (case unregister_chrdev_region (chrdevs k) (devt d)
                      (devt d + of_nat NUMBER_OF_CDEV - 1) of
                 None \<Rightarrow> Inl Hang
               | Some t \<Rightarrow> Inr (k\<lparr>chrdevs := t\<rparr>))))"

subsection \<open>How the kernel drives the driver\<close>

text \<open>
  The driver core calls \<^verbatim>\<open>remove\<close> only on a device whose \<^verbatim>\<open>probe\<close> returned 0.
  Publishing followed at once by destroying is therefore:
\<close>

definition probe_then_remove :: "env \<Rightarrow> kernel \<Rightarrow> platform_device \<Rightarrow> fault + kernel" where
  "probe_then_remove e k pdev =
     (case plmem_probe e k pdev of
        Inl f \<Rightarrow> Inl f
      | Inr (ret, k', pdev') \<Rightarrow> if ret = 0 then plmem_remove k' pdev' else Inr k')"

text \<open>
  A call through the operations table \<^verbatim>\<open>plmem_fops\<close>, with the arguments the VFS
  passes, and a sequence of such calls. Each call receives the memory holding the
  instances and hands on what it leaves of it.
\<close>

datatype 'p fop_call =
    Call_open inode struct_file
  | Call_mmap struct_file "'p vm_area_struct"
  | Call_ioctl struct_file "32 word" "64 word"
  | Call_release inode struct_file

fun call_fop ::
  "'p mm_ops \<Rightarrow> (addr \<Rightarrow> plmem_data option) \<Rightarrow> 'p fop_call
     \<Rightarrow> fault + (int \<times> (addr \<Rightarrow> plmem_data option))" where
  "call_fop mm m (Call_open ino filp) = Inr (fst (plmem_open ino filp), m)"
| "call_fop mm m (Call_mmap filp vma) =
     (case plmem_mmap mm m filp vma of
        Inl f \<Rightarrow> Inl f
      | Inr (ret, vma', m') \<Rightarrow> Inr (ret, m'))"
| "call_fop mm m (Call_ioctl filp cmd arg) = Inr (plmem_ioctl filp cmd arg, m)"
| "call_fop mm m (Call_release ino filp) = Inr (plmem_release ino filp, m)"

fun run_fops ::
  "'p mm_ops \<Rightarrow> (addr \<Rightarrow> plmem_data option) \<Rightarrow> 'p fop_call list
     \<Rightarrow> fault + (int list \<times> (addr \<Rightarrow> plmem_data option))" where
  "run_fops mm m [] = Inr ([], m)"
| "run_fops mm m (c # cs) =
     (case call_fop mm m c of
        Inl f \<Rightarrow> Inl f
      | Inr (ret, m') \<Rightarrow>
          (case run_fops mm m' cs of
             Inl f \<Rightarrow> Inl f
           | Inr (rets, m'') \<Rightarrow> Inr (ret # rets, m'')))"

text \<open>
  A file is open on an instance when its \<^verbatim>\<open>private_data\<close> points to a live
  \<^verbatim>\<open>plmem_data\<close>; the VFS calls \<^verbatim>\<open>mmap\<close> on such files only.
\<close>

definition opened :: "(addr \<Rightarrow> plmem_data option) \<Rightarrow> struct_file \<Rightarrow> bool" where
  "opened m filp = (case private_data filp of None \<Rightarrow> False | Some a \<Rightarrow> m a \<noteq> None)"

fun call_ok :: "(addr \<Rightarrow> plmem_data option) \<Rightarrow> 'p fop_call \<Rightarrow> bool" where
  "call_ok m (Call_mmap filp vma) = opened m filp"
| "call_ok m c = True"

subsection \<open>The specification's page attribute\<close>

text \<open>
  Section 4.3 of the specification, in its words: \<open>NonCached\<close> marks the pages
  cacheability-disabled, \<open>WriteCombine\<close> marks them write-combined, \<open>Cached\<close> leaves
  the default attribute untouched.
\<close>

definition spec_page_attribute :: "'p mm_ops \<Rightarrow> plmem_mode \<Rightarrow> 'p \<Rightarrow> 'p" where
  "spec_page_attribute mm mode p =
     (case mode of
        noncached \<Rightarrow> pgprot_noncached mm p
      | writecombine \<Rightarrow> pgprot_writecombine mm p
      | cached \<Rightarrow> p)"

subsection \<open>Stages of the probe, named for the proofs\<close>

text \<open>The region part of an instance: base, length and mode.\<close>

definition same_region :: "plmem_data \<Rightarrow> plmem_data \<Rightarrow> bool" where
  "same_region d d' =
     (mem_start d' = mem_start d \<and> mem_size d' = mem_size d \<and> mmap_mode d' = mmap_mode d)"

text \<open>The instance as \<^verbatim>\<open>plmem_probe\<close> has filled it in when it reads \<^verbatim>\<open>topic,mem-type\<close>.\<close>

definition bound_data :: "platform_device \<Rightarrow> resource \<Rightarrow> plmem_data" where
  "bound_data pdev res =
     zero_plmem_data\<lparr>dev := Some (pdev_dev pdev), mem_start := res_start res,
       mem_size := res_end res - res_start res + 1,
       mmap_mode := (if device_is_compatible pdev ''topic,iotester''
                     then noncached else writecombine)\<rparr>"

text \<open>The \<^verbatim>\<open>label\<close> block of \<^verbatim>\<open>plmem_probe\<close>: the label and the log it leaves.\<close>

definition probe_label :: "kernel \<Rightarrow> platform_device \<Rightarrow> string \<times> kernel" where
  "probe_label k pdev =
     (case device_property_read_string pdev ''label'' of
        Inr s \<Rightarrow> (s, k)
      | Inl ret \<Rightarrow> (''plmem'', dev_err k (''No label, using default: '' @ ''plmem'' @ nl)))"

subsection \<open>Concrete nodes and kernels\<close>

text \<open>
  A kernel with no range registered, where the first dynamic major is 254 and the
  driver's range starts at \<^verbatim>\<open>MKDEV(254, 0)\<close>, which is 266338304.
\<close>

definition boot_kernel :: kernel where
  "boot_kernel =
     \<lparr>mem = (\<lambda>a. None), chrdevs = [], cdev_map = [], plmem_class = [], dmesg = []\<rparr>"

definition plmem_range :: "32 word \<Rightarrow> char_device_struct" where
  "plmem_range major =
     \<lparr>cd_major = major, cd_baseminor = 0, cd_minorct = 1, cd_name = ''plmem''\<rparr>"

text \<open>
  Every kernel call succeeds; the instance is allocated at address 7; \<^verbatim>\<open>vsnprintf\<close>
  prints nothing more once it meets a conversion without an argument.
\<close>

definition all_succeed :: env where
  "all_succeed =
     \<lparr>kzalloc_ret = Some 7, cdev_add_ret = 0, device_create_err = None,
      directive_output = (\<lambda>fmt. [])\<rparr>"

text \<open>\<^verbatim>\<open>device_create\<close> fails: a device of that name exists in the class already.\<close>

definition collision :: env where
  "collision =
     \<lparr>kzalloc_ret = Some 7, cdev_add_ret = 0, device_create_err = Some (- EEXIST),
      directive_output = (\<lambda>fmt. [])\<rparr>"

definition fpga_ram :: resource where
  "fpga_ram = \<lparr>res_start = 0x40000000, res_end = 0x4000FFFF, res_flags = 0x200\<rparr>"

text \<open>A node with the memory resource and nothing else.\<close>

definition plain_node :: platform_device where
  "plain_node =
     \<lparr>pdev_dev = 100, resources = [fpga_ram], compatible = [''topic,plmem''],
      properties = [], driver_data = None\<rparr>"

text \<open>A node without the memory resource.\<close>

definition bare_node :: platform_device where
  "bare_node =
     \<lparr>pdev_dev = 100, resources = [], compatible = [''topic,plmem''],
      properties = [], driver_data = None\<rparr>"

text \<open>Scenarios A, C and D of the specification, and a node with a label.\<close>

definition scenario_A :: platform_device where
  "scenario_A = plain_node\<lparr>compatible := [''topic,iotester'']\<rparr>"

definition scenario_C :: platform_device where
  "scenario_C =
     plain_node\<lparr>compatible := [''topic,iotester''],
                properties := [(''topic,mem-type'', ''cached'')]\<rparr>"

definition scenario_D :: platform_device where
  "scenario_D = plain_node\<lparr>properties := [(''topic,mem-type'', ''bogus'')]\<rparr>"

definition labelled_node :: platform_device where
  "labelled_node = plain_node\<lparr>properties := [(''label'', ''fpga-ram'')]\<rparr>"

text \<open>A node whose label has a \<^verbatim>\<open>%\<close> in it, and one whose label has a \<^verbatim>\<open>/\<close>.\<close>

definition percent_node :: platform_device where
  "percent_node = plain_node\<lparr>properties := [(''label'', ''50%%'')]\<rparr>"

definition slash_node :: platform_device where
  "slash_node = plain_node\<lparr>properties := [(''label'', ''pl/ram'')]\<rparr>"

text \<open>The kernel once \<^verbatim>\<open>plmem_probe\<close> has bound the region of \<open>plain_node\<close>.\<close>

definition bound_kernel :: kernel where
  "bound_kernel = boot_kernel\<lparr>mem := (\<lambda>a. None)(7 \<mapsto> bound_data plain_node fpga_ram)\<rparr>"

text \<open>
  A published instance, the inode of its node, a file not yet opened, an area a process
  asks to map, and a stand-in for the memory manager that records the protection it is
  given.
\<close>

definition published_data :: plmem_data where
  "published_data =
     zero_plmem_data\<lparr>mem_start := 0x40000000, mem_size := 0x10000, devt := 266338304,
                     mmap_mode := writecombine\<rparr>"

definition published_mem :: "addr \<Rightarrow> plmem_data option" where
  "published_mem = (\<lambda>a. None)(7 \<mapsto> published_data)"

definition node_inode :: inode where
  "node_inode = \<lparr>i_rdev = 266338304, i_cdev = Cdev_command_of 7\<rparr>"

definition fresh_file :: struct_file where
  "fresh_file = \<lparr>private_data = None\<rparr>"

definition user_vma :: "string vm_area_struct" where
  "user_vma =
     \<lparr>vm_start = 0x7F0000000000, vm_end = 0x7F0000010000, vm_pgoff = 0,
      vm_page_prot = ''default''\<rparr>"

definition mock_mm :: "string mm_ops" where
  "mock_mm =
     \<lparr>pgprot_noncached = (\<lambda>p. ''noncached''), pgprot_writecombine = (\<lambda>p. ''writecombine''),
      vm_iomap_memory = (\<lambda>vma start len. (0, vma))\<rparr>"

text \<open>Open, map, a control request, map again, close.\<close>

definition session :: "string fop_call list" where
  "session =
     [Call_open node_inode fresh_file,
      Call_mmap (snd (plmem_open node_inode fresh_file)) user_vma,
      Call_ioctl (snd (plmem_open node_inode fresh_file)) 0x5401 0,
      Call_mmap (snd (plmem_open node_inode fresh_file)) user_vma,
      Call_release node_inode (snd (plmem_open node_inode fresh_file))]"

section \<open>Properties of the kernel interfaces\<close>

subsection \<open>Device numbers as naturals\<close>

lemma unat_MKDEV0:
  fixes m :: "32 word"
  assumes "m < 4096"
  shows "unat (MKDEV m 0) = unat m * 2 ^ 20"
proof -
  have "unat m < 4096" using assms by (simp add: word_less_nat_alt)
  then have "unat m * 1048576 < 4294967296" by simp
  then show ?thesis
    by (simp add: MKDEV_def MINORBITS_def push_bit_eq_mult unat_word_ariths)
qed

lemma unat_MAJOR: "unat (MAJOR d) = unat d div 2 ^ 20"
  by (simp add: MAJOR_def MINORBITS_def drop_bit_eq_div unat_div)

lemma minormask_is_mask: "(0xFFFFF :: 32 word) = mask 20"
  by (simp add: mask_eq_exp_minus_1)

lemma unat_MINOR: "unat (MINOR d) = unat d mod 2 ^ 20"
  by (simp add: MINOR_def MINORMASK_def minormask_is_mask flip: take_bit_eq_mask)
     (simp add: take_bit_eq_mod unat_mod)

lemma MAJOR_MKDEV: "m < 4096 \<Longrightarrow> MAJOR (MKDEV m 0) = m"
  by (simp add: word_unat_eq_iff unat_MAJOR unat_MKDEV0)

lemma MINOR_MKDEV: "m < 4096 \<Longrightarrow> MINOR (MKDEV m 0) = 0"
  by (simp add: word_unat_eq_iff unat_MINOR unat_MKDEV0)

lemma unat_MKDEV0_Suc:
  fixes m :: "32 word"
  assumes "m < 4095"
  shows "unat (MKDEV m 0 + 1) = unat m * 2 ^ 20 + 1"
proof -
  have "unat m < 4095" using assms by (simp add: word_less_nat_alt)
  then have "unat m * 1048576 + 1 < 4294967296" by simp
  moreover have "m < 4096" using assms by (simp add: word_less_nat_alt)
  ultimately show ?thesis
    by (simp add: unat_word_ariths unat_MKDEV0)
qed

lemma unat_major_succ:
  fixes m :: "32 word"
  assumes "m < 4095"
  shows "unat (m + 1) = unat m + 1" and "m + 1 < 4096"
proof -
  have less: "unat m < 4095" using assms by (simp add: word_less_nat_alt)
  then show "unat (m + 1) = unat m + 1" by (simp add: unat_word_ariths)
  with less show "m + 1 < 4096" by (simp add: word_less_nat_alt)
qed

subsection \<open>Allocating a range and giving it back\<close>

text \<open>
  Unregistering one number at the start of a major takes one turn of the loop and
  unlinks the range of length 1 registered there.
\<close>

lemma unregister_own_range:
  fixes m :: "32 word"
  assumes "m < 4095"
  shows "unregister_chrdev_region
           (\<lparr>cd_major = m, cd_baseminor = 0, cd_minorct = 1, cd_name = name\<rparr> # t)
           (MKDEV m 0) 1 = Some t"
proof -
  let ?n = "MKDEV m 0"
  have m': "m < 4096" using assms by (simp add: word_less_nat_alt)
  have lt: "?n < ?n + 1"
    using assms by (simp add: word_less_nat_alt unat_MKDEV0_Suc unat_MKDEV0 m')
  have nxt: "?n + 1 < MKDEV (m + 1) 0"
    using assms unat_major_succ [OF assms]
    by (simp add: word_less_nat_alt unat_MKDEV0_Suc unat_MKDEV0)
  show ?thesis
    unfolding unregister_chrdev_region_def
    apply (subst unregister_loop.simps)
    apply (simp add: lt nxt Let_def MAJOR_MKDEV MINOR_MKDEV m')
    apply (subst unregister_loop.simps)
    apply simp
    done
qed

lemma find_in_set: "List.find P xs = Some x \<Longrightarrow> x \<in> set xs"
  by (induction xs) (auto split: if_splits)

lemma find_dynamic_major_range:
  "find_dynamic_major t = - EBUSY
   \<or> (234 \<le> find_dynamic_major t \<and> find_dynamic_major t < 512)"
proof (cases "List.find (\<lambda>i. filter (\<lambda>cd. major_to_index (cd_major cd) = of_nat i) t = [])
               (rev [CHRDEV_MAJOR_DYN_END ..< CHRDEV_MAJOR_HASH_SIZE])")
  case (Some i)
  from find_in_set [OF this] have "CHRDEV_MAJOR_DYN_END \<le> i \<and> i < CHRDEV_MAJOR_HASH_SIZE"
    by (simp only: set_rev set_upt atLeastLessThan_iff)
  then have "234 \<le> i \<and> i < 512"
    by (simp add: CHRDEV_MAJOR_DYN_END_def CHRDEV_MAJOR_HASH_SIZE_def)
  with Some show ?thesis by (simp add: find_dynamic_major_def)
next
  case None
  note first = this
  show ?thesis
  proof (cases "List.find (\<lambda>i. filter (\<lambda>cd. cd_major cd = of_nat i) t = [])
                 (rev [CHRDEV_MAJOR_DYN_EXT_END ..< Suc CHRDEV_MAJOR_DYN_EXT_START])")
    case (Some i)
    from find_in_set [OF this]
    have "CHRDEV_MAJOR_DYN_EXT_END \<le> i \<and> i < Suc CHRDEV_MAJOR_DYN_EXT_START"
      by (simp only: set_rev set_upt atLeastLessThan_iff)
    then have "234 \<le> i \<and> i < 512"
      by (simp add: CHRDEV_MAJOR_DYN_EXT_END_def CHRDEV_MAJOR_DYN_EXT_START_def)
    with Some first show ?thesis by (simp add: find_dynamic_major_def)
  next
    case None
    with first show ?thesis by (simp add: find_dynamic_major_def)
  qed
qed

lemma word_of_int_major:
  fixes r :: int
  assumes "234 \<le> r" and "r < 512"
  shows "(234 :: 32 word) \<le> word_of_int r" and "(word_of_int r :: 32 word) < 512"
proof -
  have u: "uint (word_of_int r :: 32 word) = r"
    using assms by (simp add: uint_word_of_int take_bit_eq_mod)
  show "(234 :: 32 word) \<le> word_of_int r" using assms by (simp add: word_le_def u)
  show "(word_of_int r :: 32 word) < 512" using assms by (simp add: word_less_def u)
qed

lemma alloc_chrdev_region_Inl:
  "alloc_chrdev_region t 0 1 name = Inl e \<Longrightarrow> e < 0"
  using find_dynamic_major_range [of t]
  by (auto simp: alloc_chrdev_region_def register_chrdev_region'_def Let_def EBUSY_def
      EINVAL_def split: if_splits sum.splits)

text \<open>A range the allocator grants the driver is one number, minor 0, of a dynamic major.\<close>

lemma alloc_chrdev_region_Inr:
  assumes "alloc_chrdev_region t 0 1 name = Inr (d, t')"
  shows "\<exists>m. 234 \<le> m \<and> m < 512 \<and> d = MKDEV m 0
           \<and> t' = \<lparr>cd_major = m, cd_baseminor = 0, cd_minorct = 1, cd_name = name\<rparr> # t"
proof -
  let ?r = "find_dynamic_major t"
  from assms have nneg: "\<not> ?r < 0"
    and d: "d = MKDEV (word_of_int ?r) 0"
    and t': "t' = \<lparr>cd_major = word_of_int ?r, cd_baseminor = 0, cd_minorct = 1,
                    cd_name = name\<rparr> # t"
    by (auto simp: alloc_chrdev_region_def register_chrdev_region'_def Let_def
        split: if_splits sum.splits)
  from nneg find_dynamic_major_range [of t] have "234 \<le> ?r" "?r < 512"
    by (auto simp: EBUSY_def)
  from word_of_int_major [OF this] d t' show ?thesis by blast
qed

subsection \<open>Frame facts of the small operations\<close>

lemma mem_store: "mem (store k a f) = (mem k)(a := map_option f (mem k a))"
  by (simp add: store_def)

lemma store_other [simp]:
  "chrdevs (store k a f) = chrdevs k" "cdev_map (store k a f) = cdev_map k"
  "plmem_class (store k a f) = plmem_class k" "dmesg (store k a f) = dmesg k"
  by (simp_all add: store_def)

lemma dev_err_fields [simp]:
  "mem (dev_err k msg) = mem k" "chrdevs (dev_err k msg) = chrdevs k"
  "cdev_map (dev_err k msg) = cdev_map k" "plmem_class (dev_err k msg) = plmem_class k"
  "dmesg (dev_err k msg) = dmesg k @ [msg]"
  by (simp_all add: dev_err_def)

lemma platform_get_resource_set_drvdata [simp]:
  "platform_get_resource (platform_set_drvdata pdev a) ty n = platform_get_resource pdev ty n"
  by (simp add: platform_get_resource_def platform_set_drvdata_def)

lemma device_property_set_drvdata [simp]:
  "device_property_read_string (platform_set_drvdata pdev a) p
     = device_property_read_string pdev p"
  by (simp add: device_property_read_string_def platform_set_drvdata_def)

lemma device_is_compatible_set_drvdata [simp]:
  "device_is_compatible (platform_set_drvdata pdev a) c = device_is_compatible pdev c"
  by (simp add: device_is_compatible_def platform_set_drvdata_def)

lemma pdev_dev_set_drvdata [simp]:
  "pdev_dev (platform_set_drvdata pdev a) = pdev_dev pdev"
  by (simp add: platform_set_drvdata_def)

section \<open>Properties of the driver\<close>

subsection \<open>Publishing\<close>

lemma failed_cdev_own_range:
  assumes "chrdevs k = \<lparr>cd_major = m, cd_baseminor = 0, cd_minorct = 1, cd_name = name\<rparr> # t"
    and "m < 4095"
  shows "failed_cdev k (MKDEV m 0) ret = Inr (ret, k\<lparr>chrdevs := t\<rparr>)"
  using assms by (simp add: failed_cdev_def NUMBER_OF_CDEV_def unregister_own_range)

text \<open>
  \<^verbatim>\<open>plmem_create_cdev\<close> returns on every path, its error paths included, and leaves the
  region of the instance as it found it.
\<close>

lemma plmem_create_cdev_returns:
  assumes "mem k a = Some d"
  shows "\<exists>ret k' d'. plmem_create_cdev e k a label = Inr (ret, k')
           \<and> mem k' a = Some d' \<and> same_region d d'"
proof (cases "alloc_chrdev_region (chrdevs k) 0 1 DRIVER_CLASS_NAME")
  case (Inl ret)
  with assms show ?thesis
    by (simp add: plmem_create_cdev_def NUMBER_OF_CDEV_def same_region_def)
next
  case (Inr p)
  obtain dv t where p: "p = (dv, t)" by (cases p)
  from alloc_chrdev_region_Inr [OF Inr [unfolded p]] obtain m where
    m: "m < 512" and dv: "dv = MKDEV m 0"
    and t: "t = \<lparr>cd_major = m, cd_baseminor = 0, cd_minorct = 1,
                  cd_name = DRIVER_CLASS_NAME\<rparr> # chrdevs k"
    by blast
  from m have m': "m < 4095" by (simp add: word_less_nat_alt)
  show ?thesis
    using assms Inr p
    by (auto simp: plmem_create_cdev_def NUMBER_OF_CDEV_def same_region_def Let_def
        cdev_add_def device_create_def mem_store failed_cdev_own_range [OF _ m'] dv t
        split: option.splits)
qed

lemma plmem_create_cdev_success:
  assumes "mem k a = Some d"
    and "alloc_chrdev_region (chrdevs k) 0 1 DRIVER_CLASS_NAME = Inr (dv, t)"
    and "cdev_add_ret e = 0" and "device_create_err e = None"
  shows "\<exists>k'. plmem_create_cdev e k a label = Inr (0, k')
           \<and> plmem_class k' =
               \<lparr>d_parent = dev d, d_devt = dv, d_drvdata = a,
                 d_name = kobject_set_name_vargs e label\<rparr> # plmem_class k
           \<and> chrdevs k' = t \<and> dmesg k' = dmesg k"
  using assms
  by (simp add: plmem_create_cdev_def NUMBER_OF_CDEV_def Let_def cdev_add_def device_create_def
      mem_store)

text \<open>A format without \<^verbatim>\<open>%\<close> prints as itself.\<close>

lemma vsnprintf_noargs_plain:
  "CHR ''%'' \<notin> set fmt \<Longrightarrow> vsnprintf_noargs u fmt = fmt"
  by (induction u fmt rule: vsnprintf_noargs.induct) auto

lemma kobject_set_name_plain:
  "CHR ''%'' \<notin> set fmt \<Longrightarrow> kobject_set_name_vargs e fmt = strreplace fmt (CHR ''/'') (CHR ''!'')"
  by (simp add: kobject_set_name_vargs_def vsnprintf_noargs_plain)

subsection \<open>Probe, stage by stage\<close>

lemma plmem_probe_bound:
  assumes "kzalloc_ret e = Some a"
    and "platform_get_resource pdev IORESOURCE_MEM 0 = Some res"
  shows "plmem_probe e k pdev =
     (case probe_mem_type (k\<lparr>mem := (mem k)(a \<mapsto> bound_data pdev res)\<rparr>) pdev a of
        Inl (ret, k') \<Rightarrow> Inr (ret, k', platform_set_drvdata pdev a)
      | Inr k' \<Rightarrow>
          (case plmem_create_cdev e (snd (probe_label k' pdev)) a (fst (probe_label k' pdev)) of
             Inl f \<Rightarrow> Inl f
           | Inr (ret, k'') \<Rightarrow> Inr (ret, k'', platform_set_drvdata pdev a)))"
proof -
  have pm: "probe_mem_type k' (platform_set_drvdata pdev a) a = probe_mem_type k' pdev a" for k'
    by (simp add: probe_mem_type_def)
  show ?thesis
    using assms
    by (simp add: plmem_probe_def devm_kzalloc_def Let_def store_def bound_data_def pm
        probe_label_def zero_plmem_data_def split: sum.splits prod.splits)
qed

lemma probe_mem_type_absent:
  "map_of (properties pdev) ''topic,mem-type'' = None \<Longrightarrow> probe_mem_type k pdev a = Inr k"
  by (simp add: probe_mem_type_def device_property_read_string_def)

lemma probe_mem_type_valid:
  assumes "map_of (properties pdev) ''topic,mem-type'' = Some v"
    and "v \<in> {''writecombine'', ''cached'', ''noncached''}"
  shows "probe_mem_type k pdev a =
           Inr (store k a (\<lambda>d. d\<lparr>mmap_mode :=
                  (if v = ''writecombine'' then writecombine
                   else if v = ''cached'' then cached else noncached)\<rparr>))"
  using assms by (auto simp: probe_mem_type_def device_property_read_string_def)

lemma probe_mem_type_invalid:
  assumes "map_of (properties pdev) ''topic,mem-type'' = Some v"
    and "v \<notin> {''writecombine'', ''cached'', ''noncached''}"
  shows "probe_mem_type k pdev a =
           Inl (- EINVAL, dev_err k (''Invalid mem-type: '' @ v @ nl))"
  using assms
  by (auto simp: probe_mem_type_def device_property_read_string_def dev_err_probe_def)

lemma mem_probe_label [simp]: "mem (snd (probe_label k pdev)) = mem k"
  by (simp add: probe_label_def split: sum.splits)

lemma probe_label_fields [simp]:
  "chrdevs (snd (probe_label k pdev)) = chrdevs k"
  "plmem_class (snd (probe_label k pdev)) = plmem_class k"
  "fst (probe_label k pdev) =
     (case map_of (properties pdev) ''label'' of Some s \<Rightarrow> s | None \<Rightarrow> ''plmem'')"
  "dmesg (snd (probe_label k pdev)) =
     dmesg k @ (case map_of (properties pdev) ''label'' of
                  Some s \<Rightarrow> [] | None \<Rightarrow> [''No label, using default: plmem'' @ nl])"
  by (simp_all add: probe_label_def device_property_read_string_def split: option.splits)

subsection \<open>File operations\<close>

lemma call_fop_frame:
  "call_ok m c \<Longrightarrow> \<exists>ret. call_fop mm m c = Inr (ret, m)"
  by (cases c) (auto simp: opened_def plmem_mmap_def Let_def split: option.splits prod.splits)

subsection \<open>Evaluation on the concrete kernel\<close>

lemmas kernel_consts =
  MINORBITS_def MINORMASK_def MAJOR_def MINOR_def MKDEV_def
  CHRDEV_MAJOR_HASH_SIZE_def CHRDEV_MAJOR_MAX_def CHRDEV_MAJOR_DYN_END_def
  CHRDEV_MAJOR_DYN_EXT_START_def CHRDEV_MAJOR_DYN_EXT_END_def major_to_index_def
  EBUSY_def EINVAL_def ENOMEM_def

lemmas resource_defs =
  platform_get_resource_def resource_type_def IORESOURCE_MEM_def IORESOURCE_TYPE_BITS_def
  fpga_ram_def

lemmas driver_defs =
  plmem_probe_def plmem_create_cdev_def plmem_remove_def probe_mem_type_def failed_cdev_def
  devm_kzalloc_def store_def dev_err_def dev_err_probe_def cdev_init_def cdev_add_def
  device_create_def device_destroy_def platform_set_drvdata_def dev_get_drvdata_def
  device_is_compatible_def device_property_read_string_def zero_plmem_data_def zero_cdev_def
  kobject_set_name_vargs_def strreplace_def NUMBER_OF_CDEV_def Let_def

lemma alloc_boot:
  "alloc_chrdev_region [] 0 1 DRIVER_CLASS_NAME = Inr (266338304, [plmem_range 254])"
  by (simp add: alloc_chrdev_region_def register_chrdev_region'_def find_dynamic_major_def
      overlaps_def Let_def kernel_consts DRIVER_CLASS_NAME_def plmem_range_def)

lemma get_resource_plain: "platform_get_resource plain_node IORESOURCE_MEM 0 = Some fpga_ram"
  by (simp add: resource_defs plain_node_def)

text \<open>
  The call of the error path of \<^verbatim>\<open>plmem_create_cdev\<close>, with the count
  \<^verbatim>\<open>NUMBER_OF_CDEV\<close>, gives the range back.
\<close>

lemma unregister_right_count:
  "unregister_chrdev_region [plmem_range 254] 266338304 (of_nat NUMBER_OF_CDEV) = Some []"
  by (simp add: unregister_chrdev_region_def unregister_loop.simps kernel_consts
      NUMBER_OF_CDEV_def plmem_range_def)

text \<open>
  The call of \<^verbatim>\<open>plmem_remove\<close>, with the count \<^verbatim>\<open>devt + NUMBER_OF_CDEV - 1\<close>, walks
  the majors 254 to 507 asking for ranges of 1048576 minors and unlinks nothing.
\<close>

lemma unregister_wrong_count:
  "unregister_chrdev_region [plmem_range 254] 266338304 (266338304 + of_nat NUMBER_OF_CDEV - 1)
     = Some [plmem_range 254]"
  by (simp add: unregister_chrdev_region_def unregister_loop.simps kernel_consts
      NUMBER_OF_CDEV_def plmem_range_def)

lemma alloc_boot_kernel:
  "alloc_chrdev_region (chrdevs boot_kernel) 0 1 DRIVER_CLASS_NAME
     = Inr (266338304, [plmem_range 254])"
  using alloc_boot by (simp add: boot_kernel_def)

lemma get_resource_scenario:
  "platform_get_resource scenario_A IORESOURCE_MEM 0 = Some fpga_ram"
  "platform_get_resource scenario_C IORESOURCE_MEM 0 = Some fpga_ram"
  "platform_get_resource scenario_D IORESOURCE_MEM 0 = Some fpga_ram"
  "platform_get_resource labelled_node IORESOURCE_MEM 0 = Some fpga_ram"
  by (simp_all add: resource_defs plain_node_def scenario_A_def scenario_C_def scenario_D_def
      labelled_node_def)

lemma kzalloc_all_succeed: "kzalloc_ret all_succeed = Some 7"
  by (simp add: all_succeed_def)

subsection \<open>What \<^verbatim>\<open>plmem_remove\<close> asks the allocator to release\<close>

lemma unregister_keeps_other_lengths:
  "cd \<in> set t \<Longrightarrow> cd_minorct cd \<noteq> c \<Longrightarrow> cd \<in> set (unregister_chrdev_region' t ma mi c)"
  by (induction t) auto

lemma MKDEV0_mono:
  fixes j J :: "32 word"
  assumes "j < J" and "J < 4096"
  shows "MKDEV j 0 < MKDEV J 0"
proof -
  from assms have "j < 4096" by (simp add: word_less_nat_alt)
  with assms show ?thesis by (simp add: word_less_nat_alt unat_MKDEV0)
qed

lemma MKDEV0_step:
  fixes j :: "32 word"
  assumes "j < 4095"
  shows "MKDEV (j + 1) 0 - MKDEV j 0 = 0x100000"
proof -
  from assms have j: "j < 4096" by (simp add: word_less_nat_alt)
  have le: "MKDEV j 0 \<le> MKDEV (j + 1) 0"
    using assms unat_major_succ [OF assms] by (simp add: word_le_nat_alt unat_MKDEV0 j)
  show ?thesis
    using unat_major_succ [OF assms]
    by (simp add: word_unat_eq_iff unat_sub [OF le] unat_MKDEV0 j)
qed

text \<open>
  Between two major boundaries the loop asks, major by major, for a range of all
  1048576 minors of that major. It ends, and a range of any other length stays
  registered.
\<close>

lemma unregister_loop_whole_majors:
  fixes j J :: "32 word"
  assumes "j \<le> J" and "J < 4096"
  shows "\<exists>t'. unregister_loop (MKDEV j 0) (MKDEV J 0) t = Some t'
           \<and> (\<forall>cd \<in> set t. cd_minorct cd \<noteq> 0x100000 \<longrightarrow> cd \<in> set t')"
  using assms
proof (induction "unat J - unat j" arbitrary: j t)
  case 0
  then have "j = J" by (simp add: word_le_nat_alt word_unat_eq_iff)
  then show ?case by (subst unregister_loop.simps) simp
next
  case (Suc d)
  from Suc.hyps(2) Suc.prems have lt: "j < J" by (simp add: word_less_nat_alt)
  with Suc.prems have j95: "j < 4095" and j96: "j < 4096"
    by (simp_all add: word_less_nat_alt)
  from lt unat_major_succ [OF j95] have le': "j + 1 \<le> J"
    by (simp add: word_le_nat_alt word_less_nat_alt)
  from Suc.hyps(2) unat_major_succ [OF j95] have d: "d = unat J - unat (j + 1)" by simp
  have notgt: "\<not> MKDEV J 0 < MKDEV (j + 1) 0"
    using le' Suc.prems(2) unat_major_succ [OF j95]
    by (simp add: word_less_nat_alt word_le_nat_alt unat_MKDEV0)
  let ?t1 = "unregister_chrdev_region' t j 0 0x100000"
  from Suc.hyps(1) [OF d le' Suc.prems(2), of ?t1] obtain t' where
    t': "unregister_loop (MKDEV (j + 1) 0) (MKDEV J 0) ?t1 = Some t'"
    and keep: "\<forall>cd \<in> set ?t1. cd_minorct cd \<noteq> 0x100000 \<longrightarrow> cd \<in> set t'"
    by blast
  have "unregister_loop (MKDEV j 0) (MKDEV J 0) t = Some t'"
    by (subst unregister_loop.simps)
       (simp add: MKDEV0_mono [OF lt Suc.prems(2)] Let_def MAJOR_MKDEV MINOR_MKDEV j96 notgt
          MKDEV0_step [OF j95] t')
  moreover have "\<forall>cd \<in> set t. cd_minorct cd \<noteq> 0x100000 \<longrightarrow> cd \<in> set t'"
    using keep unregister_keeps_other_lengths by blast
  ultimately show ?case by blast
qed

lemma MKDEV0_double:
  fixes m :: "32 word"
  assumes "m < 2048"
  shows "MKDEV m 0 + (MKDEV m 0 + 1 - 1) = MKDEV (m + m) 0"
    and "m \<le> m + m" and "m + m < 4096"
proof -
  from assms have u: "unat m < 2048" by (simp add: word_less_nat_alt)
  then have mm: "unat (m + m) = unat m + unat m" by (simp add: unat_word_ariths)
  from u mm show "m \<le> m + m" by (simp add: word_le_nat_alt)
  from u mm show mm96: "m + m < 4096" by (simp add: word_less_nat_alt)
  from u have m96: "m < 4096" by (simp add: word_less_nat_alt)
  have rhs: "unat (MKDEV (m + m) 0) = (unat m + unat m) * 2 ^ 20"
    unfolding unat_MKDEV0 [OF mm96] mm ..
  have "unat (MKDEV m 0 + MKDEV m 0) = unat (MKDEV m 0) + unat (MKDEV m 0)"
    using u by (simp only: unat_word_ariths unat_MKDEV0 [OF m96]) simp
  then have "unat (MKDEV m 0 + MKDEV m 0) = unat (MKDEV (m + m) 0)"
    by (simp only: rhs unat_MKDEV0 [OF m96]) simp
  then have "MKDEV m 0 + MKDEV m 0 = MKDEV (m + m) 0"
    by (simp only: word_unat_eq_iff)
  then show "MKDEV m 0 + (MKDEV m 0 + 1 - 1) = MKDEV (m + m) 0"
    by simp
qed

lemma device_destroy_chrdevs [simp]: "chrdevs (device_destroy k dv) = chrdevs k"
  by (simp add: device_destroy_def)

text \<open>
  \<^verbatim>\<open>plmem_remove\<close> returns, and whatever the number of the instance, no range of a
  length other than 1048576 leaves the allocator: the range of length 1 that
  \<^verbatim>\<open>plmem_create_cdev\<close> registered is among those that stay.
\<close>

lemma plmem_remove_keeps_ranges:
  fixes m :: "32 word"
  assumes "dev_get_drvdata pdev = Some a" and "mem k a = Some d"
    and "devt d = MKDEV m 0" and "m < 2048"
  shows "\<exists>k'. plmem_remove k pdev = Inr k'
           \<and> (\<forall>cd \<in> set (chrdevs k). cd_minorct cd \<noteq> 0x100000 \<longrightarrow> cd \<in> set (chrdevs k'))"
proof -
  from unregister_loop_whole_majors [OF MKDEV0_double(2,3) [OF assms(4)], of "chrdevs k"]
  obtain t' where "unregister_loop (MKDEV m 0) (MKDEV (m + m) 0) (chrdevs k) = Some t'"
    and "\<forall>cd \<in> set (chrdevs k). cd_minorct cd \<noteq> 0x100000 \<longrightarrow> cd \<in> set t'"
    by blast
  then show ?thesis
    using assms MKDEV0_double(1) [OF assms(4)]
    by (simp add: plmem_remove_def NUMBER_OF_CDEV_def unregister_chrdev_region_def)
qed

subsection \<open>The rollback of \<^verbatim>\<open>plmem_create_cdev\<close>, on every input\<close>

text \<open>
  When \<^verbatim>\<open>device_create\<close> fails the error is returned, the range is given back and
  the class has no new device, but the entry \<^verbatim>\<open>cdev_add\<close> made in the cdev map is
  still there.
\<close>

lemma failed_device_create_rollback:
  assumes "mem k a = Some d"
    and "alloc_chrdev_region (chrdevs k) 0 1 DRIVER_CLASS_NAME = Inr (dv, t)"
    and "cdev_add_ret e = 0" and "device_create_err e = Some err"
  shows "\<exists>k'. plmem_create_cdev e k a label = Inr (err, k')
           \<and> chrdevs k' = chrdevs k \<and> plmem_class k' = plmem_class k
           \<and> cdev_map k' = \<lparr>p_dev = dv, p_range = 1, p_data = Cdev_command_of a\<rparr> # cdev_map k"
proof -
  from alloc_chrdev_region_Inr [OF assms(2)] obtain m where
    m: "m < 512" and dv: "dv = MKDEV m 0"
    and t: "t = \<lparr>cd_major = m, cd_baseminor = 0, cd_minorct = 1,
                  cd_name = DRIVER_CLASS_NAME\<rparr> # chrdevs k"
    by blast
  from m have m': "m < 4095" by (simp add: word_less_nat_alt)
  show ?thesis
    using assms
    by (simp add: plmem_create_cdev_def NUMBER_OF_CDEV_def Let_def cdev_add_def
        device_create_def mem_store failed_cdev_own_range [OF _ m'] dv t)
qed

subsection \<open>The region the probe binds\<close>

text \<open>
  The base and length that \<^verbatim>\<open>plmem_mmap\<close> later passes on are the start of the memory
  resource and \<^verbatim>\<open>end - start + 1\<close>, whether publishing succeeds or not.
\<close>

lemma probe_binds_region:
  assumes "kzalloc_ret e = Some a"
    and "platform_get_resource pdev IORESOURCE_MEM 0 = Some res"
    and "map_of (properties pdev) ''topic,mem-type''
           \<in> {None, Some ''writecombine'', Some ''cached'', Some ''noncached''}"
  shows "\<exists>ret k' pdev' d. plmem_probe e k pdev = Inr (ret, k', pdev') \<and> mem k' a = Some d
           \<and> mem_start d = res_start res \<and> mem_size d = res_end res - res_start res + 1"
proof -
  let ?k1 = "k\<lparr>mem := (mem k)(a \<mapsto> bound_data pdev res)\<rparr>"
  obtain k2 d2 where k2: "probe_mem_type ?k1 pdev a = Inr k2"
    and d2: "mem k2 a = Some d2" "mem_start d2 = res_start res"
      "mem_size d2 = res_end res - res_start res + 1"
  proof (cases "map_of (properties pdev) ''topic,mem-type''")
    case None
    from probe_mem_type_absent [OF this, of ?k1 a] that [of ?k1 "bound_data pdev res"]
    show ?thesis by (simp add: bound_data_def)
  next
    case (Some v)
    with assms(3) have "v \<in> {''writecombine'', ''cached'', ''noncached''}" by auto
    from probe_mem_type_valid [OF Some this, of ?k1 a] that
    show ?thesis by (simp add: mem_store bound_data_def)
  qed
  from d2(1) have "mem (snd (probe_label k2 pdev)) a = Some d2" by simp
  from plmem_create_cdev_returns [OF this, of e "fst (probe_label k2 pdev)"]
  obtain ret k' d' where
    "plmem_create_cdev e (snd (probe_label k2 pdev)) a (fst (probe_label k2 pdev))
       = Inr (ret, k')"
    "mem k' a = Some d'" "same_region d2 d'"
    by blast
  then show ?thesis
    using plmem_probe_bound [OF assms(1,2), of k] k2 d2 by (simp add: same_region_def)
qed

subsection \<open>The name of the node\<close>

text \<open>
  When the kernel calls of publishing succeed and the label (or, without the property,
  the default \<^verbatim>\<open>plmem\<close>) has no \<^verbatim>\<open>%\<close> in it, the probe returns 0, the device is named
  by the label with every \<^verbatim>\<open>/\<close> turned into \<^verbatim>\<open>!\<close>, and the log has one more message
  exactly when the property is absent.
\<close>

lemma label_without_percent_names_the_node:
  assumes "kzalloc_ret e = Some a"
    and "platform_get_resource pdev IORESOURCE_MEM 0 = Some res"
    and "map_of (properties pdev) ''topic,mem-type''
           \<in> {None, Some ''writecombine'', Some ''cached'', Some ''noncached''}"
    and "alloc_chrdev_region (chrdevs k) 0 1 DRIVER_CLASS_NAME = Inr (dv, t)"
    and "cdev_add_ret e = 0" and "device_create_err e = None"
    and "CHR ''%'' \<notin> set (case map_of (properties pdev) ''label'' of
                               Some s \<Rightarrow> s | None \<Rightarrow> ''plmem'')"
  shows "\<exists>k' pdev'. plmem_probe e k pdev = Inr (0, k', pdev')
           \<and> plmem_class k' =
               \<lparr>d_parent = Some (pdev_dev pdev), d_devt = dv, d_drvdata = a,
                 d_name = strreplace
                            (case map_of (properties pdev) ''label'' of
                               Some s \<Rightarrow> s | None \<Rightarrow> ''plmem'')
                            (CHR ''/'') (CHR ''!'')\<rparr> # plmem_class k
           \<and> dmesg k' = dmesg k @
               (case map_of (properties pdev) ''label'' of
                  Some s \<Rightarrow> [] | None \<Rightarrow> [''No label, using default: plmem'' @ nl])"
proof -
  let ?k1 = "k\<lparr>mem := (mem k)(a \<mapsto> bound_data pdev res)\<rparr>"
  obtain k2 d2 where k2: "probe_mem_type ?k1 pdev a = Inr k2"
    and d2: "mem k2 a = Some d2" "dev d2 = Some (pdev_dev pdev)"
    and same: "chrdevs k2 = chrdevs k" "plmem_class k2 = plmem_class k" "dmesg k2 = dmesg k"
  proof (cases "map_of (properties pdev) ''topic,mem-type''")
    case None
    from probe_mem_type_absent [OF this, of ?k1 a] that [of ?k1 "bound_data pdev res"]
    show ?thesis by (simp add: bound_data_def)
  next
    case (Some v)
    with assms(3) have "v \<in> {''writecombine'', ''cached'', ''noncached''}" by auto
    from probe_mem_type_valid [OF Some this, of ?k1 a] that
    show ?thesis by (simp add: mem_store bound_data_def)
  qed
  let ?k3 = "snd (probe_label k2 pdev)"
  from d2 have "mem ?k3 a = Some d2" by simp
  from plmem_create_cdev_success [OF this _ assms(5,6), of dv t "fst (probe_label k2 pdev)"]
    assms(4) same d2
  obtain k' where "plmem_create_cdev e ?k3 a (fst (probe_label k2 pdev)) = Inr (0, k')"
    "plmem_class k' = \<lparr>d_parent = Some (pdev_dev pdev), d_devt = dv, d_drvdata = a,
        d_name = kobject_set_name_vargs e (fst (probe_label k2 pdev))\<rparr> # plmem_class k"
    "dmesg k' = dmesg ?k3"
    by auto
  then show ?thesis
    using plmem_probe_bound [OF assms(1,2), of k] k2 same assms(7)
    by (simp add: kobject_set_name_plain)
qed

text \<open>The label \<^verbatim>\<open>pl/ram\<close> names the node \<^verbatim>\<open>pl!ram\<close>; no label names it \<^verbatim>\<open>plmem\<close>.\<close>

lemma label_without_percent_examples:
  "(\<exists>k' pdev'. plmem_probe all_succeed boot_kernel slash_node = Inr (0, k', pdev')
       \<and> map d_name (plmem_class k') = [''pl!ram''] \<and> dmesg k' = [])
   \<and> (\<exists>k' pdev'. plmem_probe all_succeed boot_kernel plain_node = Inr (0, k', pdev')
       \<and> map d_name (plmem_class k') = [''plmem'']
       \<and> dmesg k' = [''No label, using default: plmem'' @ nl])"
proof -
  have res: "platform_get_resource slash_node IORESOURCE_MEM 0 = Some fpga_ram"
    by (simp add: resource_defs plain_node_def slash_node_def)
  have mtS: "map_of (properties slash_node) ''topic,mem-type''
               \<in> {None, Some ''writecombine'', Some ''cached'', Some ''noncached''}"
    and mtP: "map_of (properties plain_node) ''topic,mem-type''
               \<in> {None, Some ''writecombine'', Some ''cached'', Some ''noncached''}"
    by (simp_all add: slash_node_def plain_node_def)
  have ca: "cdev_add_ret all_succeed = 0" and dc: "device_create_err all_succeed = None"
    by (simp_all add: all_succeed_def)
  have npS: "CHR ''%'' \<notin> set (case map_of (properties slash_node) ''label'' of
                                  Some s \<Rightarrow> s | None \<Rightarrow> ''plmem'')"
    and npP: "CHR ''%'' \<notin> set (case map_of (properties plain_node) ''label'' of
                                  Some s \<Rightarrow> s | None \<Rightarrow> ''plmem'')"
    by (simp_all add: slash_node_def plain_node_def)
  from label_without_percent_names_the_node [OF kzalloc_all_succeed res mtS alloc_boot_kernel
      ca dc npS]
    label_without_percent_names_the_node [OF kzalloc_all_succeed get_resource_plain mtP
      alloc_boot_kernel ca dc npP]
  show ?thesis
    by (auto simp: slash_node_def plain_node_def boot_kernel_def strreplace_def)
qed

section \<open>The claims\<close>

text \<open>
  Claim C1. Publishing (\<^verbatim>\<open>plmem_create_cdev\<close>) followed at once by destroying
  (\<^verbatim>\<open>plmem_remove\<close>) is claimed to leave the number allocator as it was before
  publishing. On the kernel with no range registered, probing \<open>plain_node\<close> succeeds and
  registers the range of major 254, minor 0, length 1; \<^verbatim>\<open>plmem_remove\<close> then passes
  \<^verbatim>\<open>devt + NUMBER_OF_CDEV - 1\<close>, which is 266338304, as the count of numbers to release,
  and the range is still registered afterwards. The lemma \<open>plmem_remove_keeps_ranges\<close>
  shows the same for every instance number.
\<close>

theorem remove_keeps_range_registered:
  "chrdevs boot_kernel = []
   \<and> map_sum id chrdevs (probe_then_remove all_succeed boot_kernel plain_node)
       = Inr [plmem_range 254]"
  using alloc_boot unregister_wrong_count
  by (simp add: probe_then_remove_def driver_defs resource_defs boot_kernel_def
      all_succeed_def plain_node_def)

text \<open>
  Claim C2. On a node without the memory resource \<^verbatim>\<open>plmem_probe\<close> is claimed to return
  a resource error. \<^verbatim>\<open>platform_get_resource\<close> returns \<^verbatim>\<open>NULL\<close> there and the next
  statement reads \<^verbatim>\<open>res->start\<close>: the probe dereferences the null pointer and returns
  nothing.
\<close>

theorem probe_without_resource:
  assumes "kzalloc_ret e = Some a"
    and "platform_get_resource pdev IORESOURCE_MEM 0 = None"
  shows "plmem_probe e k pdev = Inl NullDeref"
  using assms by (simp add: plmem_probe_def devm_kzalloc_def Let_def)

theorem probe_without_resource_witness:
  "kzalloc_ret all_succeed = Some 7
   \<and> platform_get_resource bare_node IORESOURCE_MEM 0 = None
   \<and> plmem_probe all_succeed boot_kernel bare_node = Inl NullDeref"
proof -
  have nores: "platform_get_resource bare_node IORESOURCE_MEM 0 = None"
    by (simp add: platform_get_resource_def bare_node_def)
  from probe_without_resource [OF kzalloc_all_succeed nores, of boot_kernel]
    kzalloc_all_succeed nores
  show ?thesis by simp
qed

text \<open>
  Claim C3. When \<^verbatim>\<open>device_create\<close> fails, \<^verbatim>\<open>plmem_create_cdev\<close> is claimed to release
  the number, return the error and leave neither a node nor a registered handler. With
  \<^verbatim>\<open>device_create\<close> failing with \<^verbatim>\<open>-EEXIST\<close> the call returns \<^verbatim>\<open>-EEXIST\<close>, no range
  stays registered and the class has no device, but the cdev that \<^verbatim>\<open>cdev_add\<close> entered
  for the number 266338304 is still in the cdev map: the rollback has no \<^verbatim>\<open>cdev_del\<close>.
  The lemma \<open>failed_device_create_rollback\<close> shows the same on every input.
\<close>

theorem failed_device_create_keeps_cdev:
  "map_sum id (\<lambda>(ret, k). (ret, chrdevs k, plmem_class k, cdev_map k))
     (plmem_create_cdev collision bound_kernel 7 ''plmem'')
   = Inr (- EEXIST, [], [],
          [\<lparr>p_dev = 266338304, p_range = 1, p_data = Cdev_command_of 7\<rparr>])"
  using alloc_boot unregister_right_count
  by (simp add: driver_defs boot_kernel_def bound_kernel_def collision_def)

text \<open>
  Claim C4. For a node whose \<^verbatim>\<open>topic,mem-type\<close> property is \<^verbatim>\<open>writecombine\<close>,
  \<^verbatim>\<open>cached\<close> or \<^verbatim>\<open>noncached\<close>, the probe returns and the instance has the mode of that
  name, whatever the compatible strings of the node are, the tester tag included.
\<close>

theorem mem_type_overrides_default:
  assumes "kzalloc_ret e = Some a"
    and "platform_get_resource pdev IORESOURCE_MEM 0 = Some res"
    and "map_of (properties pdev) ''topic,mem-type'' = Some v"
    and "v \<in> {''writecombine'', ''cached'', ''noncached''}"
  shows "\<exists>ret k' pdev' d. plmem_probe e k pdev = Inr (ret, k', pdev') \<and> mem k' a = Some d
           \<and> mmap_mode d = (if v = ''writecombine'' then writecombine
                             else if v = ''cached'' then cached else noncached)"
proof -
  let ?mode = "if v = ''writecombine'' then writecombine
               else if v = ''cached'' then cached else noncached"
  let ?k1 = "k\<lparr>mem := (mem k)(a \<mapsto> bound_data pdev res)\<rparr>"
  let ?k2 = "store ?k1 a (\<lambda>d. d\<lparr>mmap_mode := ?mode\<rparr>)"
  let ?d2 = "(bound_data pdev res)\<lparr>mmap_mode := ?mode\<rparr>"
  have "mem (snd (probe_label ?k2 pdev)) a = Some ?d2"
    by (simp add: mem_store)
  from plmem_create_cdev_returns [OF this, of e "fst (probe_label ?k2 pdev)"]
  obtain ret k' d' where
    "plmem_create_cdev e (snd (probe_label ?k2 pdev)) a (fst (probe_label ?k2 pdev))
       = Inr (ret, k')"
    "mem k' a = Some d'" "same_region ?d2 d'"
    by blast
  then show ?thesis
    using plmem_probe_bound [OF assms(1,2), of k] probe_mem_type_valid [OF assms(3,4), of ?k1 a]
    by (simp add: same_region_def)
qed

theorem mem_type_overrides_default_witness:
  "kzalloc_ret all_succeed = Some 7
   \<and> platform_get_resource scenario_C IORESOURCE_MEM 0 = Some fpga_ram
   \<and> map_of (properties scenario_C) ''topic,mem-type'' = Some ''cached''
   \<and> ''topic,iotester'' \<in> set (compatible scenario_C)
   \<and> (\<exists>ret k' pdev' d. plmem_probe all_succeed boot_kernel scenario_C = Inr (ret, k', pdev')
         \<and> mem k' 7 = Some d \<and> mmap_mode d = cached)"
proof -
  have mt: "map_of (properties scenario_C) ''topic,mem-type'' = Some ''cached''"
    by (simp add: scenario_C_def plain_node_def)
  have valid: "''cached'' \<in> {''writecombine'', ''cached'', ''noncached''}" by simp
  have tag: "''topic,iotester'' \<in> set (compatible scenario_C)"
    by (simp add: scenario_C_def plain_node_def)
  from mem_type_overrides_default [OF kzalloc_all_succeed get_resource_scenario(2) mt valid,
      of boot_kernel]
    kzalloc_all_succeed get_resource_scenario(2) mt tag
  show ?thesis by simp
qed

text \<open>
  Claim C5. For a node whose \<^verbatim>\<open>topic,mem-type\<close> property is any other string, the probe
  returns \<^verbatim>\<open>-EINVAL\<close>, the one message it logs carries the offending value, and no range
  is registered, no cdev added and no device created.
\<close>

theorem invalid_mem_type_rejected:
  assumes "kzalloc_ret e = Some a"
    and "platform_get_resource pdev IORESOURCE_MEM 0 = Some res"
    and "map_of (properties pdev) ''topic,mem-type'' = Some v"
    and "v \<notin> {''writecombine'', ''cached'', ''noncached''}"
  shows "\<exists>k' pdev'. plmem_probe e k pdev = Inr (- EINVAL, k', pdev')
           \<and> chrdevs k' = chrdevs k \<and> cdev_map k' = cdev_map k
           \<and> plmem_class k' = plmem_class k
           \<and> dmesg k' = dmesg k @ [''Invalid mem-type: '' @ v @ nl]"
  using plmem_probe_bound [OF assms(1,2), of k]
    probe_mem_type_invalid [OF assms(3,4),
      of "k\<lparr>mem := (mem k)(a \<mapsto> bound_data pdev res)\<rparr>" a]
  by simp

theorem invalid_mem_type_rejected_witness:
  "kzalloc_ret all_succeed = Some 7
   \<and> platform_get_resource scenario_D IORESOURCE_MEM 0 = Some fpga_ram
   \<and> map_of (properties scenario_D) ''topic,mem-type'' = Some ''bogus''
   \<and> ''bogus'' \<notin> {''writecombine'', ''cached'', ''noncached''}
   \<and> (\<exists>k' pdev'. plmem_probe all_succeed boot_kernel scenario_D = Inr (- 22, k', pdev')
         \<and> chrdevs k' = [] \<and> cdev_map k' = [] \<and> plmem_class k' = []
         \<and> dmesg k' = [''Invalid mem-type: bogus'' @ nl])"
proof -
  have mt: "map_of (properties scenario_D) ''topic,mem-type'' = Some ''bogus''"
    by (simp add: scenario_D_def plain_node_def)
  have invalid: "''bogus'' \<notin> {''writecombine'', ''cached'', ''noncached''}" by simp
  from invalid_mem_type_rejected [OF kzalloc_all_succeed get_resource_scenario(3) mt invalid,
      of boot_kernel]
    kzalloc_all_succeed get_resource_scenario(3) mt
  show ?thesis by (simp add: boot_kernel_def EINVAL_def)
qed

text \<open>
  Claim C6. For a node without the \<^verbatim>\<open>topic,mem-type\<close> property, the probe returns and
  the instance is \<open>noncached\<close> when the node is compatible with \<^verbatim>\<open>topic,iotester\<close>,
  and \<open>writecombine\<close> otherwise.
\<close>

theorem default_mode_by_compatible:
  assumes "kzalloc_ret e = Some a"
    and "platform_get_resource pdev IORESOURCE_MEM 0 = Some res"
    and "map_of (properties pdev) ''topic,mem-type'' = None"
  shows "\<exists>ret k' pdev' d. plmem_probe e k pdev = Inr (ret, k', pdev') \<and> mem k' a = Some d
           \<and> mmap_mode d = (if ''topic,iotester'' \<in> set (compatible pdev)
                             then noncached else writecombine)"
proof -
  let ?k1 = "k\<lparr>mem := (mem k)(a \<mapsto> bound_data pdev res)\<rparr>"
  have "mem (snd (probe_label ?k1 pdev)) a = Some (bound_data pdev res)"
    by simp
  from plmem_create_cdev_returns [OF this, of e "fst (probe_label ?k1 pdev)"]
  obtain ret k' d' where
    "plmem_create_cdev e (snd (probe_label ?k1 pdev)) a (fst (probe_label ?k1 pdev))
       = Inr (ret, k')"
    "mem k' a = Some d'" "same_region (bound_data pdev res) d'"
    by blast
  then show ?thesis
    using plmem_probe_bound [OF assms(1,2), of k] probe_mem_type_absent [OF assms(3), of ?k1 a]
    by (simp add: same_region_def bound_data_def device_is_compatible_def)
qed

theorem default_mode_by_compatible_witness:
  "kzalloc_ret all_succeed = Some 7
   \<and> platform_get_resource scenario_A IORESOURCE_MEM 0 = Some fpga_ram
   \<and> platform_get_resource plain_node IORESOURCE_MEM 0 = Some fpga_ram
   \<and> map_of (properties scenario_A) ''topic,mem-type'' = None
   \<and> map_of (properties plain_node) ''topic,mem-type'' = None
   \<and> (\<exists>ret k' pdev' d. plmem_probe all_succeed boot_kernel scenario_A = Inr (ret, k', pdev')
         \<and> mem k' 7 = Some d \<and> mmap_mode d = noncached)
   \<and> (\<exists>ret k' pdev' d. plmem_probe all_succeed boot_kernel plain_node = Inr (ret, k', pdev')
         \<and> mem k' 7 = Some d \<and> mmap_mode d = writecombine)"
proof -
  have mtA: "map_of (properties scenario_A) ''topic,mem-type'' = None"
    by (simp add: scenario_A_def plain_node_def)
  have mtB: "map_of (properties plain_node) ''topic,mem-type'' = None"
    by (simp add: plain_node_def)
  have tagA: "''topic,iotester'' \<in> set (compatible scenario_A)"
    by (simp add: scenario_A_def plain_node_def)
  have tagB: "''topic,iotester'' \<notin> set (compatible plain_node)"
    by (simp add: plain_node_def)
  from default_mode_by_compatible [OF kzalloc_all_succeed get_resource_scenario(1) mtA,
      of boot_kernel]
    default_mode_by_compatible [OF kzalloc_all_succeed get_resource_plain mtB, of boot_kernel]
    kzalloc_all_succeed get_resource_scenario(1) get_resource_plain mtA mtB tagA tagB
  show ?thesis by simp
qed

text \<open>
  Claim C7. On a file opened on an instance, \<^verbatim>\<open>plmem_mmap\<close> gives the area the page
  attribute the specification asks for by the instance's mode, calls
  \<^verbatim>\<open>vm_iomap_memory\<close> with that area and the instance's \<^verbatim>\<open>mem_start\<close> and \<^verbatim>\<open>mem_size\<close>,
  and returns what it returns.
\<close>

theorem plmem_mmap_delegates:
  assumes "private_data filp = Some a" and "m a = Some data"
  shows "plmem_mmap mm m filp vma =
           (let (ret, vma') =
                  vm_iomap_memory mm
                    (vma\<lparr>vm_page_prot :=
                           spec_page_attribute mm (mmap_mode data) (vm_page_prot vma)\<rparr>)
                    (mem_start data) (mem_size data)
            in Inr (ret, vma', m))"
  using assms
  by (cases "mmap_mode data") (simp_all add: plmem_mmap_def spec_page_attribute_def)

theorem plmem_mmap_delegates_witness:
  "private_data (snd (plmem_open node_inode fresh_file)) = Some 7
   \<and> published_mem 7 = Some published_data
   \<and> plmem_mmap mock_mm published_mem (snd (plmem_open node_inode fresh_file)) user_vma
       = Inr (0, user_vma\<lparr>vm_page_prot := ''writecombine''\<rparr>, published_mem)"
proof -
  have pd: "private_data (snd (plmem_open node_inode fresh_file)) = Some 7"
    by (simp add: plmem_open_def node_inode_def Let_def)
  have live: "published_mem 7 = Some published_data"
    by (simp add: published_mem_def)
  from plmem_mmap_delegates [of "snd (plmem_open node_inode fresh_file)" 7 published_mem
      published_data mock_mm user_vma] pd live
  show ?thesis
    by (simp add: mock_mm_def spec_page_attribute_def published_data_def)
qed

text \<open>
  Claim C8. The value of the \<^verbatim>\<open>label\<close> property is claimed to be the name of the
  published node. \<^verbatim>\<open>plmem_create_cdev\<close> passes the label to \<^verbatim>\<open>device_create\<close> as the
  format of the name, not as an argument of a \<^verbatim>\<open>%s\<close> format, as the three messages of
  the driver that print a string do. For the label \<^verbatim>\<open>50%%\<close> the
  probe returns 0 and the node is named \<^verbatim>\<open>50%\<close>. For a label without \<^verbatim>\<open>%\<close> the lemma
  \<open>label_without_percent_names_the_node\<close> gives the name, and the default label and its
  message when the property is absent.
\<close>

theorem label_is_printed_as_format:
  "device_property_read_string percent_node ''label'' = Inr ''50%%''
   \<and> map_sum id (\<lambda>(ret, k, pdev). (ret, map d_name (plmem_class k)))
         (plmem_probe all_succeed boot_kernel percent_node)
       = Inr (0, [''50%''])"
  using alloc_boot
  by (simp add: driver_defs resource_defs boot_kernel_def all_succeed_def plain_node_def
      percent_node_def)

text \<open>
  Claim C9. Any sequence of open, map, control and close calls, the map calls made on
  files opened on an instance, returns and leaves the memory holding the instances as
  it was: base, length, mode and number of every instance are unchanged.
\<close>

theorem fops_leave_instances_unchanged:
  assumes "list_all (call_ok m) cs"
  shows "\<exists>rets. run_fops mm m cs = Inr (rets, m)"
  using assms
proof (induction cs)
  case Nil
  show ?case by simp
next
  case (Cons c cs)
  then obtain ret where "call_fop mm m c = Inr (ret, m)"
    using call_fop_frame [of m c mm] by auto
  moreover from Cons obtain rets where "run_fops mm m cs = Inr (rets, m)" by auto
  ultimately show ?case by simp
qed

theorem fops_leave_instances_unchanged_witness:
  "list_all (call_ok published_mem) session
   \<and> run_fops mock_mm published_mem session = Inr ([0, 0, - 25, 0, 0], published_mem)"
proof -
  have ok: "list_all (call_ok published_mem) session"
    by (simp add: session_def opened_def plmem_open_def node_inode_def published_mem_def)
  from fops_leave_instances_unchanged [OF ok, of mock_mm]
  obtain rets where r: "run_fops mock_mm published_mem session = Inr (rets, published_mem)"
    by blast
  have "map_sum id fst (run_fops mock_mm published_mem session) = Inr [0, 0, - 25, 0, 0]"
    by (simp add: session_def plmem_open_def plmem_mmap_def plmem_ioctl_def plmem_release_def
        node_inode_def published_mem_def published_data_def mock_mm_def ENOTTY_def Let_def)
  with r ok show ?thesis by simp
qed

text \<open>
  Claim C10. \<^verbatim>\<open>plmem_open\<close> returns 0 and makes the instance that owns the inode's cdev
  the file's \<^verbatim>\<open>private_data\<close>; \<^verbatim>\<open>plmem_release\<close> returns 0; and so do they for every
  list of openers and closers.
\<close>

theorem open_release_never_fail:
  "plmem_open ino filp = (0, filp\<lparr>private_data := Some (container_of (i_cdev ino))\<rparr>)
   \<and> plmem_open (ino\<lparr>i_cdev := Cdev_command_of a\<rparr>) filp = (0, filp\<lparr>private_data := Some a\<rparr>)
   \<and> plmem_release ino filp = 0
   \<and> map (\<lambda>(i, f). fst (plmem_open i f)) opens = replicate (length opens) 0
   \<and> map (\<lambda>(i, f). plmem_release i f) closes = replicate (length closes) 0"
proof -
  have "map (\<lambda>(i, f). fst (plmem_open i f)) opens = replicate (length opens) 0"
    by (induction opens) (auto simp: plmem_open_def)
  moreover have "map (\<lambda>(i, f). plmem_release i f) closes = replicate (length closes) 0"
    by (induction closes) (auto simp: plmem_release_def)
  ultimately show ?thesis
    by (simp add: plmem_open_def plmem_release_def)
qed

end
